theory Spec2Isabelle
  imports Complex_Main
begin

section \<open>Data model\<close>

text \<open>
  The repository holds two implementations of the same order pricing pipeline in
  \<^verbatim>\<open>src/main.js\<close>: the class \<^verbatim>\<open>OrderProcessor\<close> (lines 1 to 328) and its
  refactoring into plain functions (lines 329 to 516). Both are embedded below, each
  function under the name the source gives it; the method \<^verbatim>\<open>processOrders\<close> of the class
  is \<open>OrderProcessor_processOrders\<close>, since the refactoring has a function of that name too.

  JavaScript numbers are IEEE 754 binary64 values, \<open>jsnum\<close> below: every sum,
  difference, product and quotient of the source is the exact result rounded to the
  nearest double, with Infinity and NaN. A missing string field is the empty string and
  a missing \<^verbatim>\<open>price\<close> or \<^verbatim>\<open>quantity\<close> is 0, the values that the source's \<^verbatim>\<open>!x\<close>
  tests treat like \<^verbatim>\<open>undefined\<close>; a missing object or array is \<open>None\<close>. Every
  \<^verbatim>\<open>new Date()\<close> of one call reads the clock value the call is given.
\<close>

subsection \<open>Numbers\<close>

text \<open>
  \<open>Fin m e\<close> is the finite number \<open>m * 2 ^ e\<close>. The operations return it with \<open>m\<close> odd
  (or as \<open>Fin 0 0\<close>), so that equal numbers are equal terms; they accept any \<open>m\<close> and
  \<open>e\<close>. The sign of zero is not kept: \<^verbatim>\<open>-0\<close> is \<open>Fin 0 0\<close>.
\<close>

datatype jsnum = Fin int int | PosInf | NegInf | NaN

text \<open>The number of binary digits of a positive integer.\<close>

fun bitlen :: "int \<Rightarrow> int" where
  "bitlen n = (if n \<le> 0 then 0 else 1 + bitlen (n div 2))"

text \<open>\<open>shl m k\<close> is \<open>m * 2 ^ k\<close> for \<open>k \<ge> 0\<close>.\<close>

definition shl :: "int \<Rightarrow> int \<Rightarrow> int" where
  "shl m k = m * 2 ^ nat k"

text \<open>\<open>m * 2 ^ e\<close> with \<open>m\<close> made odd.\<close>

function strip :: "int \<Rightarrow> int \<Rightarrow> jsnum" where
  "strip m e =
     (if m = 0 then Fin 0 0
      else if even m then strip (m div 2) (e + 1)
      else Fin m e)"
  by pat_completeness auto
termination
  by (relation "measure (\<lambda>(m, e). nat \<bar>m\<bar>)") auto

text \<open>
  Rounding of the positive number \<open>a * 2 ^ e\<close> to 53 significant binary digits, to
  the nearest, ties to the even significand: \<open>q\<close> is the exponent of the last digit
  kept, at least -1074 (the last digit of the subnormal numbers); \<open>f\<close> is the
  significand rounded down, \<open>r\<close> the part cut off and \<open>h\<close> half a unit of the last
  digit. The result is the pair of the significand and \<open>q\<close>.
\<close>

definition roundMagnitude :: "int \<Rightarrow> int \<Rightarrow> int \<times> int" where
  "roundMagnitude a e =
     (let q = max (e + bitlen a - 53) (- 1074)
      in if q \<le> e then (shl a (e - q), q)
         else
           (let s = q - e; f = a div 2 ^ nat s; r = a mod 2 ^ nat s; h = 2 ^ nat (s - 1)
            in (if r < h then f else if r > h then f + 1 else if even f then f else f + 1, q)))"

text \<open>The double nearest to \<open>m * 2 ^ e\<close>; a result of magnitude \<open>2 ^ 1024\<close> or more is
  an infinity.\<close>

definition round64 :: "int \<Rightarrow> int \<Rightarrow> jsnum" where
  "round64 m e =
     (if m = 0 then Fin 0 0
      else
        (case roundMagnitude \<bar>m\<bar> e of
           (n, q) \<Rightarrow>
             if bitlen n + q > 1024 then (if m > 0 then PosInf else NegInf)
             else strip (if m > 0 then n else - n) q))"

text \<open>
  The double nearest to \<open>(n / d) * 2 ^ x\<close>, for \<open>d \<noteq> 0\<close>: the quotient \<open>Q\<close> is
  computed to at least 55 binary digits, and one more digit records whether the division
  left a remainder, so that the rounding of \<open>round64\<close> sees on which side of a tie the
  exact quotient lies.
\<close>

definition quotient64 :: "int \<Rightarrow> int \<Rightarrow> int \<Rightarrow> jsnum" where
  "quotient64 n d x =
     (let k = max 0 (bitlen \<bar>d\<bar> + 55 - bitlen \<bar>n\<bar>);
          N = shl \<bar>n\<bar> k;
          Q = N div \<bar>d\<bar>;
          R = N mod \<bar>d\<bar>;
          M = 2 * Q + (if R = 0 then 0 else 1)
      in round64 (if (n < 0) = (d < 0) then M else - M) (x - k - 1))"

text \<open>The integer literal \<open>n\<close>, and the decimal literal with the value \<open>n / d\<close>:
  \<^verbatim>\<open>0.1\<close> is \<open>ratio 1 10\<close>, \<^verbatim>\<open>19.845\<close> is \<open>ratio 19845 1000\<close>.\<close>

definition num :: "int \<Rightarrow> jsnum" where
  "num n = round64 n 0"

definition ratio :: "int \<Rightarrow> int \<Rightarrow> jsnum" where
  "ratio n d = (if d = 0 then NaN else quotient64 n d 0)"

fun fadd :: "jsnum \<Rightarrow> jsnum \<Rightarrow> jsnum" where
  "fadd (Fin a d) (Fin b e) = (let c = min d e in round64 (shl a (d - c) + shl b (e - c)) c)"
| "fadd NaN y = NaN"
| "fadd x NaN = NaN"
| "fadd PosInf NegInf = NaN"
| "fadd NegInf PosInf = NaN"
| "fadd PosInf y = PosInf"
| "fadd NegInf y = NegInf"
| "fadd x PosInf = PosInf"
| "fadd x NegInf = NegInf"

fun fneg :: "jsnum \<Rightarrow> jsnum" where
  "fneg (Fin a d) = Fin (- a) d"
| "fneg PosInf = NegInf"
| "fneg NegInf = PosInf"
| "fneg NaN = NaN"

definition fsub :: "jsnum \<Rightarrow> jsnum \<Rightarrow> jsnum" where
  "fsub x y = fadd x (fneg y)"

fun fmul :: "jsnum \<Rightarrow> jsnum \<Rightarrow> jsnum" where
  "fmul (Fin a d) (Fin b e) = round64 (a * b) (d + e)"
| "fmul NaN y = NaN"
| "fmul x NaN = NaN"
| "fmul (Fin a d) PosInf = (if a = 0 then NaN else if a > 0 then PosInf else NegInf)"
| "fmul (Fin a d) NegInf = (if a = 0 then NaN else if a > 0 then NegInf else PosInf)"
| "fmul PosInf (Fin b e) = (if b = 0 then NaN else if b > 0 then PosInf else NegInf)"
| "fmul NegInf (Fin b e) = (if b = 0 then NaN else if b > 0 then NegInf else PosInf)"
| "fmul PosInf PosInf = PosInf"
| "fmul NegInf NegInf = PosInf"
| "fmul PosInf NegInf = NegInf"
| "fmul NegInf PosInf = NegInf"

text \<open>Division; a zero divisor is \<^verbatim>\<open>+0\<close>.\<close>

fun fdiv :: "jsnum \<Rightarrow> jsnum \<Rightarrow> jsnum" where
  "fdiv (Fin a d) (Fin b e) =
     (if b = 0 then (if a = 0 then NaN else if a > 0 then PosInf else NegInf)
      else quotient64 a b (d - e))"
| "fdiv NaN y = NaN"
| "fdiv x NaN = NaN"
| "fdiv (Fin a d) PosInf = Fin 0 0"
| "fdiv (Fin a d) NegInf = Fin 0 0"
| "fdiv PosInf (Fin b e) = (if b \<ge> 0 then PosInf else NegInf)"
| "fdiv NegInf (Fin b e) = (if b \<ge> 0 then NegInf else PosInf)"
| "fdiv x y = NaN"

text \<open>The comparisons \<^verbatim>\<open><\<close>, \<^verbatim>\<open><=\<close>, \<^verbatim>\<open>>\<close> and \<^verbatim>\<open>>=\<close>: false when an operand
  is NaN.\<close>

fun flt :: "jsnum \<Rightarrow> jsnum \<Rightarrow> bool" where
  "flt (Fin a d) (Fin b e) = (let c = min d e in shl a (d - c) < shl b (e - c))"
| "flt NaN y = False"
| "flt x NaN = False"
| "flt PosInf y = False"
| "flt x NegInf = False"
| "flt NegInf y = True"
| "flt x PosInf = True"

definition fle :: "jsnum \<Rightarrow> jsnum \<Rightarrow> bool" where
  "fle x y = (if x = NaN \<or> y = NaN then False else \<not> flt y x)"

definition fgt :: "jsnum \<Rightarrow> jsnum \<Rightarrow> bool" where
  "fgt x y = flt y x"

definition fge :: "jsnum \<Rightarrow> jsnum \<Rightarrow> bool" where
  "fge x y = fle y x"

text \<open>The numbers that \<^verbatim>\<open>!x\<close> and \<^verbatim>\<open>x || y\<close> take for false: zero and NaN.\<close>

fun falsy :: "jsnum \<Rightarrow> bool" where
  "falsy (Fin a d) = (a = 0)"
| "falsy NaN = True"
| "falsy x = False"

text \<open>\<^verbatim>\<open>x || y\<close> on numbers.\<close>

definition orElse :: "jsnum \<Rightarrow> jsnum \<Rightarrow> jsnum" where
  "orElse x y = (if falsy x then y else x)"

text \<open>\<^verbatim>\<open>Math.max(x, y)\<close>: NaN when an argument is NaN.\<close>

definition fmax :: "jsnum \<Rightarrow> jsnum \<Rightarrow> jsnum" where
  "fmax x y = (if x = NaN \<or> y = NaN then NaN else if flt x y then y else x)"

text \<open>
  What a lookup \<^verbatim>\<open>table[key]\<close> in an object literal with numeric values finds: a
  value of the literal, a member inherited from \<^verbatim>\<open>Object.prototype\<close> (a function, or
  the prototype itself for \<^verbatim>\<open>__proto__\<close>: true as a condition, NaN as a number), or
  \<^verbatim>\<open>undefined\<close>.
\<close>

datatype member = Own jsnum | Inherited | Absent

definition objectPrototypeKeys :: "string list" where
  "objectPrototypeKeys =
     [''constructor'', ''hasOwnProperty'', ''isPrototypeOf'', ''propertyIsEnumerable'',
      ''toLocaleString'', ''toString'', ''valueOf'', ''__proto__'',
      ''__defineGetter__'', ''__defineSetter__'', ''__lookupGetter__'', ''__lookupSetter__'']"

definition lookup :: "(string \<times> jsnum) list \<Rightarrow> string \<Rightarrow> member" where
  "lookup table key =
     (case map_of table key of
        Some v \<Rightarrow> Own v
      | None \<Rightarrow> if key \<in> set objectPrototypeKeys then Inherited else Absent)"

subsection \<open>Input data\<close>

record date =
  getTime :: int
  toISOString :: string
  getMonth :: nat

record Item =
  item_id :: string
  price :: jsnum
  quantity :: jsnum

record PurchaseHistory =
  totalSpent :: "jsnum option"

record Customer =
  customer_id :: string
  email :: string
  purchaseHistory :: "PurchaseHistory option"
  customer_isValid :: bool

text \<open>\<open>Created t\<close>: a \<^verbatim>\<open>createdAt\<close> field for which \<^verbatim>\<open>new Date(createdAt).getTime()\<close>
  is \<open>t\<close>, with \<open>None\<close> for NaN.\<close>

datatype created = Created "int option"

record Order =
  order_id :: string
  items :: "Item list option"
  customer :: "Customer option"
  createdAt :: "created option"

text \<open>An adjustment without \<^verbatim>\<open>amount\<close> has the amount NaN: \<^verbatim>\<open>sum + undefined\<close> is
  NaN.\<close>

record Adjustment =
  amount :: jsnum

text \<open>An entry \<open>None\<close> of \<open>adjustments\<close> is a \<^verbatim>\<open>null\<close> in the array.\<close>

record Options =
  taxRate :: "jsnum option"
  applyFees :: "bool option"
  adjustments :: "Adjustment option list option"
  promotionalCode :: "string option"
  strictMode :: bool
  requireMinimumValue :: bool
  skipInvalidCustomers :: bool
  includeDetails :: bool
  includeStatistics :: bool
  includeMetadata :: bool

datatype tier = Standard | Gold | Premium

datatype fault = TypeError string

fun message :: "fault \<Rightarrow> string" where
  "message (TypeError m) = m"

section \<open>The class OrderProcessor\<close>

subsection \<open>Validation\<close>

text \<open>
  The entries of the error list, one constructor per message of the source:
  \<^verbatim>\<open>'Order must be a valid object'\<close>, \<^verbatim>\<open>`Missing required field: ${field}`\<close>,
  \<^verbatim>\<open>'Order must contain at least one item'\<close>, \<^verbatim>\<open>`Item ${index} missing id`\<close>,
  \<^verbatim>\<open>`Item ${index} has invalid price`\<close>, \<^verbatim>\<open>`Item ${index} has invalid quantity`\<close>,
  \<^verbatim>\<open>'Customer missing id'\<close>, \<^verbatim>\<open>'Customer missing valid email'\<close>.
  (\<^verbatim>\<open>'Items must be an array'\<close> cannot arise: \<open>items\<close> is a list when present.)
\<close>

datatype validation_error =
    OrderNotObject
  | MissingField string
  | ItemsEmpty
  | ItemMissingId nat
  | ItemInvalidPrice nat
  | ItemInvalidQuantity nat
  | CustomerMissingId
  | CustomerInvalidEmail

record validationResult =
  isValid :: bool
  errors :: "validation_error list"
  warnings :: "string list"

text \<open>A character is a code point below 256. Of these the whitespace class \<^verbatim>\<open>\s\<close>
  holds space, tab, line feed, vertical tab, form feed, carriage return and the no-break
  space U+00A0.\<close>

definition isSpace :: "char \<Rightarrow> bool" where
  "isSpace c = (c \<in> set [CHR '' '', CHR 0x09, CHR 0x0A, CHR 0x0B, CHR 0x0C, CHR 0x0D, CHR 0xA0])"

text \<open>The character class \<^verbatim>\<open>[^\s@]\<close>.\<close>

definition emailChar :: "char \<Rightarrow> bool" where
  "emailChar c = (\<not> isSpace c \<and> c \<noteq> CHR ''@'')"

text \<open>
  \<^verbatim>\<open>/^[^\s@]+@[^\s@]+\.[^\s@]+$/.test(email)\<close>: a non-empty run of class characters, one
  \<^verbatim>\<open>@\<close>, then class characters only, among them a dot that is neither the first nor the
  last of them.
\<close>

definition isValidEmail :: "string \<Rightarrow> bool" where
  "isValidEmail s =
     (let local = takeWhile emailChar s; rest = dropWhile emailChar s
      in local \<noteq> [] \<and>
         (case rest of
            [] \<Rightarrow> False
          | c # domain \<Rightarrow>
              c = CHR ''@'' \<and> list_all emailChar domain \<and>
              CHR ''.'' \<in> set (butlast (tl domain))))"

fun isValidDate :: "created \<Rightarrow> bool" where
  "isValidDate (Created t) = (t \<noteq> None)"

definition missingFields :: "Order \<Rightarrow> validation_error list" where
  "missingFields order =
     (if order_id order = [] then [MissingField ''id''] else []) @
     (if items order = None then [MissingField ''items''] else []) @
     (if customer order = None then [MissingField ''customer''] else [])"

definition itemErrors :: "nat \<Rightarrow> Item \<Rightarrow> validation_error list" where
  "itemErrors index it =
     (if item_id it = [] then [ItemMissingId index] else []) @
     (if falsy (price it) \<or> fle (price it) (num 0) then [ItemInvalidPrice index] else []) @
     (if falsy (quantity it) \<or> fle (quantity it) (num 0) then [ItemInvalidQuantity index] else [])"

definition itemsErrors :: "Order \<Rightarrow> validation_error list" where
  "itemsErrors order =
     (case items order of
        None \<Rightarrow> []
      | Some its \<Rightarrow>
          if length its = 0 then [ItemsEmpty]
          else concat (map (\<lambda>(index, it). itemErrors index it) (enumerate 0 its)))"

definition customerErrors :: "Order \<Rightarrow> validation_error list" where
  "customerErrors order =
     (case customer order of
        None \<Rightarrow> []
      | Some c \<Rightarrow>
          (if customer_id c = [] then [CustomerMissingId] else []) @
          (if email c = [] \<or> \<not> isValidEmail (email c) then [CustomerInvalidEmail] else []))"

definition dateWarnings :: "Order \<Rightarrow> string list" where
  "dateWarnings order =
     (case createdAt order of
        None \<Rightarrow> []
      | Some d \<Rightarrow> if \<not> isValidDate d then [''Invalid createdAt date''] else [])"

definition performComprehensiveValidation :: "Order option \<Rightarrow> Options \<Rightarrow> validationResult" where
  "performComprehensiveValidation order options =
     (case order of
        None \<Rightarrow> \<lparr>isValid = False, errors = [OrderNotObject], warnings = []\<rparr>
      | Some ord \<Rightarrow>
          (let errs = missingFields ord @ itemsErrors ord @ customerErrors ord
           in \<lparr>isValid = (length errs = 0), errors = errs, warnings = dateWarnings ord\<rparr>))"

subsection \<open>Enrichment and pricing\<close>

fun determineCustomerTier :: "Customer option \<Rightarrow> tier" where
  "determineCustomerTier None = Standard"
| "determineCustomerTier (Some c) =
     (case purchaseHistory c of
        None \<Rightarrow> Standard
      | Some h \<Rightarrow>
          (let spent = (case totalSpent h of None \<Rightarrow> num 0 | Some v \<Rightarrow> orElse v (num 0))
           in if fgt spent (num 1000) then Premium
              else if fgt spent (num 500) then Gold
              else Standard))"

record order_metadata =
  itemCount :: nat
  hasMultipleItems :: bool
  isLargeOrder :: bool
  customerTier :: tier

record enriched_order = Order +
  processedAt :: string
  processingOptions :: Options
  totalItems :: jsnum
  subtotal :: jsnum
  metadata :: order_metadata

text \<open>A missing order or a missing \<open>items\<close> makes \<^verbatim>\<open>transformed.items.reduce\<close> throw.\<close>

definition transformAndEnrichOrder :: "Order option \<Rightarrow> Options \<Rightarrow> date \<Rightarrow> fault + enriched_order" where
  "transformAndEnrichOrder order options now =
     (case order of
        None \<Rightarrow> Inl (TypeError ''Cannot read properties of undefined (reading reduce)'')
      | Some ord \<Rightarrow>
          (case items ord of
             None \<Rightarrow> Inl (TypeError ''Cannot read properties of undefined (reading reduce)'')
           | Some its \<Rightarrow>
               (let total = foldl (\<lambda>acc it. fadd acc (quantity it)) (num 0) its;
                    sub = foldl (\<lambda>acc it. fadd acc (fmul (price it) (quantity it))) (num 0) its
                in Inr (Order.extend ord
                     (enriched_order.fields (toISOString now) options total sub
                        \<lparr>itemCount = length its,
                         hasMultipleItems = (length its > 1),
                         isLargeOrder = fgt total (num 10),
                         customerTier = determineCustomerTier (customer ord)\<rparr>)))))"

record breakdown =
  bd_subtotal :: jsnum
  taxes :: jsnum
  fees :: jsnum
  bd_adjustments :: jsnum

record pricingResult =
  pr_finalPrice :: jsnum
  pr_breakdown :: breakdown

text \<open>\<^verbatim>\<open>options.adjustments.reduce((sum, adj) => sum + adj.amount, 0)\<close>; reading \<^verbatim>\<open>amount\<close>
  of a \<^verbatim>\<open>null\<close> entry throws.\<close>

fun sumAdjustments :: "jsnum \<Rightarrow> Adjustment option list \<Rightarrow> fault + jsnum" where
  "sumAdjustments acc [] = Inr acc"
| "sumAdjustments acc (None # rest) = Inl (TypeError ''Cannot read properties of null (reading 'amount')'')"
| "sumAdjustments acc (Some adj # rest) = sumAdjustments (fadd acc (amount adj)) rest"

definition calculateComplexPricing :: "'a enriched_order_scheme \<Rightarrow> Options \<Rightarrow> fault + pricingResult" where
  "calculateComplexPricing order options =
     (let basePrice = subtotal order;
          rate = (case taxRate options of None \<Rightarrow> ratio 1 10 | Some r \<Rightarrow> orElse r (ratio 1 10));
          tax = fmul basePrice rate;
          basePrice1 = fadd basePrice tax;
          feeAmount = (if isLargeOrder (metadata order) then num 5 else ratio 5 2);
          fee = (if applyFees options \<noteq> Some False then feeAmount else num 0);
          basePrice2 = (if applyFees options \<noteq> Some False then fadd basePrice1 feeAmount else basePrice1)
      in case adjustments options of
           None \<Rightarrow>
             Inr \<lparr>pr_finalPrice = basePrice2,
                  pr_breakdown = \<lparr>bd_subtotal = subtotal order, taxes = tax, fees = fee,
                                  bd_adjustments = num 0\<rparr>\<rparr>
         | Some adjs \<Rightarrow>
             (case sumAdjustments (num 0) adjs of
                Inl e \<Rightarrow> Inl e
              | Inr adj \<Rightarrow>
                  Inr \<lparr>pr_finalPrice = fadd basePrice2 adj,
                       pr_breakdown = \<lparr>bd_subtotal = subtotal order, taxes = tax, fees = fee,
                                       bd_adjustments = adj\<rparr>\<rparr>))"

record priced_order = enriched_order +
  finalPrice :: jsnum
  pricingBreakdown :: breakdown

subsection \<open>The discount stack\<close>

record discount =
  d_type :: string
  d_amount :: jsnum
  d_percentage :: "jsnum option"
  d_code :: "string option"

text \<open>Each block of \<^verbatim>\<open>applyMultiLevelDiscounts\<close> is a step on the pair of the running
  \<^verbatim>\<open>discountedPrice\<close> and the list \<^verbatim>\<open>appliedDiscounts\<close>.\<close>

type_synonym running = "jsnum \<times> discount list"

definition tierStep :: "order_metadata \<Rightarrow> running \<Rightarrow> running" where
  "tierStep m r =
     (case r of (discountedPrice, applied) \<Rightarrow>
        if customerTier m = Premium
        then (let d = fmul discountedPrice (ratio 1 10)
              in (fsub discountedPrice d,
                  applied @ [\<lparr>d_type = ''tier'', d_amount = d, d_percentage = Some (num 10),
                              d_code = None\<rparr>]))
        else (discountedPrice, applied))"

definition volumeStep :: "order_metadata \<Rightarrow> running \<Rightarrow> running" where
  "volumeStep m r =
     (case r of (discountedPrice, applied) \<Rightarrow>
        if isLargeOrder m
        then (let d = fmul discountedPrice (ratio 5 100)
              in (fsub discountedPrice d,
                  applied @ [\<lparr>d_type = ''volume'', d_amount = d, d_percentage = Some (num 5),
                              d_code = None\<rparr>]))
        else (discountedPrice, applied))"

definition codes :: "(string \<times> jsnum) list" where
  "codes = [(''SAVE10'', ratio 1 10), (''SAVE20'', ratio 2 10), (''SAVE50'', ratio 5 10)]"

text \<open>\<^verbatim>\<open>codes[code] ? price * codes[code] : 0\<close>: an inherited member is true as the
  condition and NaN as the factor.\<close>

definition calculatePromotionalDiscount :: "jsnum \<Rightarrow> string \<Rightarrow> jsnum" where
  "calculatePromotionalDiscount p code =
     (case lookup codes code of
        Own r \<Rightarrow> if falsy r then num 0 else fmul p r
      | Inherited \<Rightarrow> fmul p NaN
      | Absent \<Rightarrow> num 0)"

definition promoStep :: "Options \<Rightarrow> running \<Rightarrow> running" where
  "promoStep options r =
     (case r of (discountedPrice, applied) \<Rightarrow>
        (case promotionalCode options of
           None \<Rightarrow> (discountedPrice, applied)
         | Some code \<Rightarrow>
             if code = [] then (discountedPrice, applied)
             else (let promoDiscount = calculatePromotionalDiscount discountedPrice code
                   in if fgt promoDiscount (num 0)
                      then (fsub discountedPrice promoDiscount,
                            applied @ [\<lparr>d_type = ''promotional'', d_amount = promoDiscount,
                                        d_percentage = None, d_code = Some code\<rparr>])
                      else (discountedPrice, applied))))"

definition seasonalStep :: "date \<Rightarrow> running \<Rightarrow> running" where
  "seasonalStep now r =
     (case r of (discountedPrice, applied) \<Rightarrow>
        if getMonth now = 11
        then (let d = fmul discountedPrice (ratio 15 100)
              in (fsub discountedPrice d,
                  applied @ [\<lparr>d_type = ''seasonal'', d_amount = d, d_percentage = Some (num 15),
                              d_code = None\<rparr>]))
        else (discountedPrice, applied))"

record discountResult =
  dr_discountedPrice :: jsnum
  dr_discounts :: "discount list"

definition applyMultiLevelDiscounts :: "'a priced_order_scheme \<Rightarrow> Options \<Rightarrow> date \<Rightarrow> discountResult" where
  "applyMultiLevelDiscounts order options now =
     (case seasonalStep now
             (promoStep options
               (volumeStep (metadata order)
                 (tierStep (metadata order) (finalPrice order, [])))) of
        (discountedPrice, applied) \<Rightarrow>
          \<lparr>dr_discountedPrice = fmax (num 0) discountedPrice, dr_discounts = applied\<rparr>)"

record processed_order = priced_order +
  discountedPrice :: jsnum
  appliedDiscounts :: "discount list"

text \<open>\<^verbatim>\<open>order.customer.isValid\<close> throws when the order has no customer.\<close>

definition shouldCompleteOrder :: "'a processed_order_scheme \<Rightarrow> Options \<Rightarrow> fault + bool" where
  "shouldCompleteOrder order options =
     (if strictMode options \<and> fle (discountedPrice order) (num 0) then Inr False
      else if requireMinimumValue options \<and> flt (discountedPrice order) (num 10) then Inr False
      else if skipInvalidCustomers options
      then (case customer order of
              None \<Rightarrow> Inl (TypeError ''Cannot read properties of undefined (reading isValid)'')
            | Some c \<Rightarrow> if \<not> customer_isValid c then Inr False else Inr True)
      else Inr True)"

subsection \<open>The processor's state and the batch\<close>

record failure =
  f_order :: "Order option"
  f_index :: nat
  reason :: string
  f_errors :: "validation_error list option"
  f_error :: "string option"
  timestamp :: string

record statistics =
  successCount :: nat
  failureCount :: nat
  totalValue :: jsnum
  averageOrderValue :: jsnum

record state_metadata =
  processingStartTime :: "int option"
  processingEndTime :: "int option"
  totalProcessingTime :: "int option"
  stats :: statistics

record processor_state =
  orders :: "Order option list"
  processedOrders :: "processed_order list"
  failedOrders :: "failure list"
  st_metadata :: state_metadata

text \<open>The state the constructor builds.\<close>

definition constructor :: processor_state where
  "constructor =
     \<lparr>orders = [], processedOrders = [], failedOrders = [],
      st_metadata =
        \<lparr>processingStartTime = None, processingEndTime = None, totalProcessingTime = None,
         stats = \<lparr>successCount = 0, failureCount = 0, totalValue = num 0,
                  averageOrderValue = num 0\<rparr>\<rparr>\<rparr>"

text \<open>\<^verbatim>\<open>updateStatistics(order, status)\<close>: \<open>Some p\<close> is the call with status
  \<^verbatim>\<open>'success'\<close> and the order's discounted price \<open>p\<close>, \<open>None\<close> the call with
  \<^verbatim>\<open>(null, 'failure')\<close>.\<close>

definition updateStatistics :: "jsnum option \<Rightarrow> processor_state \<Rightarrow> processor_state" where
  "updateStatistics success st =
     (let s = stats (st_metadata st);
          s1 = (case success of
                  Some p \<Rightarrow> s\<lparr>successCount := successCount s + 1, totalValue := fadd (totalValue s) p\<rparr>
                | None \<Rightarrow> s\<lparr>failureCount := failureCount s + 1\<rparr>);
          s2 = s1\<lparr>averageOrderValue := fdiv (totalValue s1) (num (int (max 1 (successCount s1))))\<rparr>
      in st\<lparr>st_metadata := (st_metadata st)\<lparr>stats := s2\<rparr>\<rparr>)"

definition handleValidationFailure ::
    "Order option \<Rightarrow> validationResult \<Rightarrow> nat \<Rightarrow> date \<Rightarrow> processor_state \<Rightarrow> processor_state" where
  "handleValidationFailure order vr index now st =
     updateStatistics None
       (st\<lparr>failedOrders := failedOrders st @
            [\<lparr>f_order = order, f_index = index, reason = ''validation_failed'',
              f_errors = Some (errors vr), f_error = None, timestamp = toISOString now\<rparr>]\<rparr>)"

definition handleCompletionFailure ::
    "Order option \<Rightarrow> nat \<Rightarrow> date \<Rightarrow> processor_state \<Rightarrow> processor_state" where
  "handleCompletionFailure order index now st =
     updateStatistics None
       (st\<lparr>failedOrders := failedOrders st @
            [\<lparr>f_order = order, f_index = index, reason = ''completion_failed'',
              f_errors = None, f_error = None, timestamp = toISOString now\<rparr>]\<rparr>)"

definition handleError ::
    "fault \<Rightarrow> Order option \<Rightarrow> nat \<Rightarrow> date \<Rightarrow> processor_state \<Rightarrow> processor_state" where
  "handleError err order index now st =
     updateStatistics None
       (st\<lparr>failedOrders := failedOrders st @
            [\<lparr>f_order = order, f_index = index, reason = ''error'',
              f_errors = None, f_error = Some (message err), timestamp = toISOString now\<rparr>]\<rparr>)"

text \<open>
  The body of the \<^verbatim>\<open>try\<close> block in the callback of \<^verbatim>\<open>processOrders\<close>: \<open>Inl\<close> is a
  fault thrown inside it, \<open>Inr\<close> the state it leaves and the value it returns
  (\<open>None\<close> for \<^verbatim>\<open>null\<close>). Every fault of the block is thrown before the block's first
  write to the state.
\<close>

definition tryBlock ::
    "Options \<Rightarrow> date \<Rightarrow> nat \<Rightarrow> Order option \<Rightarrow> processor_state
       \<Rightarrow> fault + processor_state \<times> processed_order option" where
  "tryBlock options now index order st =
     (let validationResult = performComprehensiveValidation order options
      in if \<not> isValid validationResult
         then Inr (handleValidationFailure order validationResult index now st, None)
         else
           (case transformAndEnrichOrder order options now of
              Inl e \<Rightarrow> Inl e
            | Inr enriched \<Rightarrow>
                (case calculateComplexPricing enriched options of
                   Inl e \<Rightarrow> Inl e
                 | Inr pricing \<Rightarrow>
                     (let priced = enriched_order.extend enriched
                            (priced_order.fields (pr_finalPrice pricing) (pr_breakdown pricing));
                          discounts = applyMultiLevelDiscounts priced options now;
                          processedOrder = priced_order.extend priced
                            (processed_order.fields (dr_discountedPrice discounts) (dr_discounts discounts))
                      in case shouldCompleteOrder processedOrder options of
                           Inl e \<Rightarrow> Inl e
                         | Inr True \<Rightarrow>
                             Inr (updateStatistics (Some (discountedPrice processedOrder))
                                    (st\<lparr>processedOrders := processedOrders st @ [processedOrder]\<rparr>),
                                  Some processedOrder)
                         | Inr False \<Rightarrow>
                             Inr (handleCompletionFailure order index now st, None)))))"

text \<open>The callback: the \<^verbatim>\<open>try\<close> block and its \<^verbatim>\<open>catch\<close>.\<close>

definition processEntry ::
    "Options \<Rightarrow> date \<Rightarrow> nat \<Rightarrow> Order option \<Rightarrow> processor_state
       \<Rightarrow> processor_state \<times> processed_order option" where
  "processEntry options now index order st =
     (case tryBlock options now index order st of
        Inl e \<Rightarrow> (handleError e order index now st, None)
      | Inr r \<Rightarrow> r)"

text \<open>\<^verbatim>\<open>this.state.orders.map((order, index) => ...)\<close>, the state threaded through.\<close>

fun mapOrders ::
    "Options \<Rightarrow> date \<Rightarrow> nat \<Rightarrow> Order option list \<Rightarrow> processor_state
       \<Rightarrow> processor_state \<times> processed_order option list" where
  "mapOrders options now index [] st = (st, [])"
| "mapOrders options now index (order # rest) st =
     (case processEntry options now index order st of
        (st1, r) \<Rightarrow>
          (case mapOrders options now (Suc index) rest st1 of
             (st2, rs) \<Rightarrow> (st2, r # rs)))"

definition finalizeProcessing :: "date \<Rightarrow> processor_state \<Rightarrow> processor_state" where
  "finalizeProcessing now st =
     (let m = (st_metadata st)\<lparr>processingEndTime := Some (getTime now)\<rparr>;
          m1 = m\<lparr>totalProcessingTime :=
                   (case processingStartTime m of
                      None \<Rightarrow> Some (getTime now)
                    | Some t \<Rightarrow> Some (getTime now - t))\<rparr>
      in st\<lparr>st_metadata := m1\<rparr>)"

record response =
  success :: bool
  processed :: nat
  failed :: nat
  total :: nat
  resp_orders :: "processed_order list option"
  resp_statistics :: "statistics option"
  resp_metadata :: "state_metadata option"

definition buildResponse :: "processed_order option list \<Rightarrow> Options \<Rightarrow> processor_state \<Rightarrow> response" where
  "buildResponse results options st =
     \<lparr>success = True,
      processed = length (processedOrders st),
      failed = length (failedOrders st),
      total = length (orders st),
      resp_orders = (if includeDetails options then Some (List.map_filter (\<lambda>r. r) results) else None),
      resp_statistics = (if includeStatistics options then Some (stats (st_metadata st)) else None),
      resp_metadata = (if includeMetadata options then Some (st_metadata st) else None)\<rparr>"

text \<open>\<^verbatim>\<open>processOrders(orders, options)\<close> on a processor in state \<open>st\<close>: the state it
  leaves, the array \<^verbatim>\<open>results\<close> and the response.\<close>

definition OrderProcessor_processOrders ::
    "Order option list \<Rightarrow> Options \<Rightarrow> date \<Rightarrow> processor_state
       \<Rightarrow> processor_state \<times> processed_order option list \<times> response" where
  "OrderProcessor_processOrders os options now st =
     (let st0 = st\<lparr>st_metadata := (st_metadata st)\<lparr>processingStartTime := Some (getTime now)\<rparr>,
                  orders := os\<rparr>
      in case mapOrders options now 0 os st0 of
           (st1, results) \<Rightarrow>
             (let st2 = finalizeProcessing now st1
              in (st2, results, buildResponse results options st2)))"

section \<open>The refactored functions\<close>

subsection \<open>Constants\<close>

definition TAX_RATE :: jsnum where
  "TAX_RATE = ratio 1 10"

definition STANDARD_FEE :: jsnum where
  "STANDARD_FEE = ratio 5 2"

definition LARGE_ORDER_FEE :: jsnum where
  "LARGE_ORDER_FEE = num 5"

definition LARGE_ORDER_THRESHOLD :: jsnum where
  "LARGE_ORDER_THRESHOLD = num 10"

definition MINIMUM_ORDER_VALUE :: jsnum where
  "MINIMUM_ORDER_VALUE = num 10"

record tier_rule =
  threshold :: jsnum
  tier_discount :: jsnum

fun CUSTOMER_TIERS :: "tier \<Rightarrow> tier_rule" where
  "CUSTOMER_TIERS Premium = \<lparr>threshold = num 1000, tier_discount = ratio 1 10\<rparr>"
| "CUSTOMER_TIERS Gold = \<lparr>threshold = num 500, tier_discount = num 0\<rparr>"
| "CUSTOMER_TIERS Standard = \<lparr>threshold = num 0, tier_discount = num 0\<rparr>"

definition PROMO_CODES :: "(string \<times> jsnum) list" where
  "PROMO_CODES = [(''SAVE10'', ratio 1 10), (''SAVE20'', ratio 2 10), (''SAVE50'', ratio 5 10)]"

subsection \<open>Validation\<close>

record validation =
  valid :: bool
  error :: "string option"

definition invalidItem :: "Item \<Rightarrow> bool" where
  "invalidItem it =
     (item_id it = [] \<or> falsy (price it) \<or> fle (price it) (num 0) \<or>
      falsy (quantity it) \<or> fle (quantity it) (num 0))"

text \<open>The \<^verbatim>\<open>for\<close> loop of \<^verbatim>\<open>validateOrder\<close>: \<open>Some\<close> is its early return.\<close>

fun checkItems :: "Item list \<Rightarrow> validation option" where
  "checkItems [] = None"
| "checkItems (it # rest) =
     (if invalidItem it then Some \<lparr>valid = False, error = Some ''Invalid item data''\<rparr>
      else checkItems rest)"

definition validateOrder :: "Order option \<Rightarrow> validation" where
  "validateOrder order =
     (case order of
        None \<Rightarrow> \<lparr>valid = False, error = Some ''Order must have an id''\<rparr>
      | Some ord \<Rightarrow>
          if order_id ord = [] then \<lparr>valid = False, error = Some ''Order must have an id''\<rparr>
          else
            (case items ord of
               None \<Rightarrow> \<lparr>valid = False, error = Some ''Order must have at least one item''\<rparr>
             | Some its \<Rightarrow>
                 if length its = 0
                 then \<lparr>valid = False, error = Some ''Order must have at least one item''\<rparr>
                 else
                   (case checkItems its of
                      Some v \<Rightarrow> v
                    | None \<Rightarrow>
                        (case customer ord of
                           None \<Rightarrow> \<lparr>valid = False, error = Some ''Invalid customer data''\<rparr>
                         | Some c \<Rightarrow>
                             if customer_id c = [] \<or> \<not> isValidEmail (email c)
                             then \<lparr>valid = False, error = Some ''Invalid customer data''\<rparr>
                             else \<lparr>valid = True, error = None\<rparr>))))"

subsection \<open>Calculation and discounts\<close>

definition calculateSubtotal :: "Item list \<Rightarrow> jsnum" where
  "calculateSubtotal its = foldl (\<lambda>total it. fadd total (fmul (price it) (quantity it))) (num 0) its"

definition calculateTax :: "jsnum \<Rightarrow> jsnum" where
  "calculateTax sub = fmul sub TAX_RATE"

definition calculateFee :: "jsnum \<Rightarrow> jsnum" where
  "calculateFee count = (if fgt count LARGE_ORDER_THRESHOLD then LARGE_ORDER_FEE else STANDARD_FEE)"

definition calculateTotal :: "jsnum \<Rightarrow> jsnum \<Rightarrow> jsnum \<Rightarrow> jsnum" where
  "calculateTotal sub tax fee = fadd (fadd sub tax) fee"

definition getCustomerTier :: "Customer option \<Rightarrow> tier" where
  "getCustomerTier c =
     (let spent =
            (case c of
               None \<Rightarrow> num 0
             | Some cu \<Rightarrow>
                 (case purchaseHistory cu of
                    None \<Rightarrow> num 0
                  | Some h \<Rightarrow> (case totalSpent h of None \<Rightarrow> num 0 | Some v \<Rightarrow> orElse v (num 0))))
      in if fge spent (threshold (CUSTOMER_TIERS Premium)) then Premium
         else if fge spent (threshold (CUSTOMER_TIERS Gold)) then Gold
         else Standard)"

definition applyTierDiscount :: "jsnum \<Rightarrow> tier \<Rightarrow> jsnum" where
  "applyTierDiscount p t = fmul p (orElse (tier_discount (CUSTOMER_TIERS t)) (num 0))"

definition applyVolumeDiscount :: "jsnum \<Rightarrow> jsnum \<Rightarrow> jsnum" where
  "applyVolumeDiscount p count =
     (if fgt count LARGE_ORDER_THRESHOLD then fmul p (ratio 5 100) else num 0)"

text \<open>\<^verbatim>\<open>PROMO_CODES[promoCode] || 0\<close> is the inherited member when the code names one;
  as a factor it is NaN.\<close>

definition applyPromoDiscount :: "jsnum \<Rightarrow> string \<Rightarrow> jsnum" where
  "applyPromoDiscount p promoCode =
     fmul p (case lookup PROMO_CODES promoCode of
               Own r \<Rightarrow> orElse r (num 0)
             | Inherited \<Rightarrow> NaN
             | Absent \<Rightarrow> num 0)"

definition applySeasonalDiscount :: "jsnum \<Rightarrow> date \<Rightarrow> jsnum" where
  "applySeasonalDiscount p now = (if getMonth now = 11 then fmul p (ratio 15 100) else num 0)"

record discounts =
  tier_amount :: jsnum
  volume :: jsnum
  promotional :: jsnum
  seasonal :: jsnum

record pricing =
  p_subtotal :: jsnum
  p_tax :: jsnum
  p_fee :: jsnum
  p_total :: jsnum
  p_discounts :: discounts
  p_finalPrice :: jsnum

text \<open>Without \<open>items\<close>, or with an empty \<open>items\<close>, the function throws at
  \<^verbatim>\<open>items.reduce\<close> or at \<^verbatim>\<open>order.items[0].price\<close>.\<close>

definition calculateFinalPrice :: "Order \<Rightarrow> string option \<Rightarrow> date \<Rightarrow> fault + pricing" where
  "calculateFinalPrice order promoCode now =
     (case items order of
        None \<Rightarrow> Inl (TypeError ''Cannot read properties of undefined (reading reduce)'')
      | Some [] \<Rightarrow> Inl (TypeError ''Cannot read properties of undefined (reading price)'')
      | Some (first # rest) \<Rightarrow>
          (let its = first # rest;
               sub = calculateSubtotal its;
               tax = calculateTax sub;
               fee = calculateFee (fdiv (calculateSubtotal its) (price first));
               tot = calculateTotal sub tax fee;
               t = getCustomerTier (customer order);
               tierDiscount = applyTierDiscount tot t;
               volumeDiscount = applyVolumeDiscount tot (num (int (length its)));
               promoDiscount =
                 (case promoCode of
                    None \<Rightarrow> num 0
                  | Some c \<Rightarrow> if c = [] then num 0 else applyPromoDiscount tot c);
               seasonalDiscount = applySeasonalDiscount tot now;
               totalDiscount = fadd (fadd (fadd tierDiscount volumeDiscount) promoDiscount) seasonalDiscount
           in Inr \<lparr>p_subtotal = sub, p_tax = tax, p_fee = fee, p_total = tot,
                   p_discounts = \<lparr>tier_amount = tierDiscount, volume = volumeDiscount,
                                  promotional = promoDiscount, seasonal = seasonalDiscount\<rparr>,
                   p_finalPrice = fmax (num 0) (fsub tot totalDiscount)\<rparr>))"

subsection \<open>Processing\<close>

record accepted =
  a_id :: string
  a_customerId :: string
  a_itemCount :: nat
  a_pricing :: pricing

text \<open>\<^verbatim>\<open>{ success: false, error }\<close> or \<^verbatim>\<open>{ success: true, order }\<close>.\<close>

datatype order_result = Failure string | Success accepted

definition processOrder :: "Order option \<Rightarrow> string option \<Rightarrow> date \<Rightarrow> fault + order_result" where
  "processOrder order promoCode now =
     (let validation = validateOrder order
      in if \<not> valid validation
         then Inr (Failure (case error validation of None \<Rightarrow> [] | Some e \<Rightarrow> e))
         else
           (case order of
              None \<Rightarrow> Inl (TypeError ''Cannot read properties of null (reading items)'')
            | Some ord \<Rightarrow>
                (case calculateFinalPrice ord promoCode now of
                   Inl e \<Rightarrow> Inl e
                 | Inr pr \<Rightarrow>
                     if flt (p_finalPrice pr) MINIMUM_ORDER_VALUE
                     then Inr (Failure ''Order value below minimum'')
                     else
                       (case customer ord of
                          None \<Rightarrow> Inl (TypeError ''Cannot read properties of undefined (reading id)'')
                        | Some c \<Rightarrow>
                            Inr (Success
                              \<lparr>a_id = order_id ord, a_customerId = customer_id c,
                               a_itemCount = (case items ord of None \<Rightarrow> 0 | Some its \<Rightarrow> length its),
                               a_pricing = pr\<rparr>)))))"

text \<open>\<^verbatim>\<open>orders.map(order => processOrder(order, promoCode))\<close>: a fault of one call ends
  the map, nothing catches it.\<close>

fun mapProcessOrder :: "Order option list \<Rightarrow> string option \<Rightarrow> date \<Rightarrow> fault + order_result list" where
  "mapProcessOrder [] promoCode now = Inr []"
| "mapProcessOrder (order # rest) promoCode now =
     (case processOrder order promoCode now of
        Inl e \<Rightarrow> Inl e
      | Inr r \<Rightarrow>
          (case mapProcessOrder rest promoCode now of
             Inl e \<Rightarrow> Inl e
           | Inr rs \<Rightarrow> Inr (r # rs)))"

fun isSuccess :: "order_result \<Rightarrow> bool" where
  "isSuccess (Success a) = True"
| "isSuccess (Failure e) = False"

record summary =
  s_total :: nat
  successful :: nat
  s_failed :: nat
  s_orders :: "accepted list"

definition processOrders :: "Order option list \<Rightarrow> string option \<Rightarrow> date \<Rightarrow> fault + summary" where
  "processOrders os promoCode now =
     (case mapProcessOrder os promoCode now of
        Inl e \<Rightarrow> Inl e
      | Inr results \<Rightarrow>
          Inr \<lparr>s_total = length os,
               successful = length (filter isSuccess results),
               s_failed = length (filter (\<lambda>r. \<not> isSuccess r) results),
               s_orders = List.map_filter (\<lambda>r. case r of Success a \<Rightarrow> Some a | Failure e \<Rightarrow> None) results\<rparr>)"

section \<open>The worked example\<close>

definition exampleOrder :: Order where
  "exampleOrder =
     \<lparr>order_id = ''123'',
      items = Some [\<lparr>item_id = ''item1'', price = num 10, quantity = num 2\<rparr>],
      customer = Some \<lparr>customer_id = ''cust1'', email = ''test@example.com'',
                        purchaseHistory = Some \<lparr>totalSpent = Some (num 1200)\<rparr>,
                        customer_isValid = False\<rparr>,
      createdAt = None\<rparr>"

text \<open>The options object \<^verbatim>\<open>{}\<close>.\<close>

definition noOptions :: Options where
  "noOptions =
     \<lparr>taxRate = None, applyFees = None, adjustments = None, promotionalCode = None,
      strictMode = False, requireMinimumValue = False, skipInvalidCustomers = False,
      includeDetails = False, includeStatistics = False, includeMetadata = False\<rparr>"

definition january :: date where
  "january = \<lparr>getTime = 1768435200000, toISOString = ''2026-01-15T00:00:00.000Z'', getMonth = 0\<rparr>"

definition december :: date where
  "december = \<lparr>getTime = 1797292800000, toISOString = ''2026-12-15T00:00:00.000Z'', getMonth = 11\<rparr>"

text \<open>\<^verbatim>\<open>{ taxRate: 0.1, promotionalCode: 'SAVE10' }\<close>.\<close>

definition exampleOptions :: Options where
  "exampleOptions = noOptions\<lparr>taxRate := Some (ratio 1 10), promotionalCode := Some ''SAVE10''\<rparr>"

text \<open>The numbers of a processed order: subtotal, taxes, fees, the total before discounts
  (the field \<^verbatim>\<open>finalPrice\<close>), the type and amount of each applied discount, and the
  discounted price.\<close>

definition breakdownOf ::
    "processed_order \<Rightarrow> jsnum \<times> jsnum \<times> jsnum \<times> jsnum \<times> (string \<times> jsnum) list \<times> jsnum" where
  "breakdownOf p =
     (subtotal p, taxes (pricingBreakdown p), fees (pricingBreakdown p), finalPrice p,
      map (\<lambda>d. (d_type d, d_amount d)) (appliedDiscounts p), discountedPrice p)"

section \<open>Inputs of the evaluations\<close>

definition customerSpending :: "jsnum \<Rightarrow> Customer" where
  "customerSpending v =
     \<lparr>customer_id = ''cust1'', email = ''test@example.com'',
      purchaseHistory = Some \<lparr>totalSpent = Some v\<rparr>, customer_isValid = False\<rparr>"

text \<open>One item of price 100, quantity 1, for a customer who has spent 1200.\<close>

definition singleItemOrder :: Order where
  "singleItemOrder =
     \<lparr>order_id = ''200'',
      items = Some [\<lparr>item_id = ''item1'', price = num 100, quantity = num 1\<rparr>],
      customer = Some (customerSpending (num 1200)),
      createdAt = None\<rparr>"

text \<open>Two line items with a total quantity of 11: one at price 100, ten at price 1.\<close>

definition elevenUnitsOrder :: Order where
  "elevenUnitsOrder =
     \<lparr>order_id = ''300'',
      items = Some [\<lparr>item_id = ''a'', price = num 100, quantity = num 1\<rparr>,
                    \<lparr>item_id = ''b'', price = num 1, quantity = num 10\<rparr>],
      customer = Some (customerSpending (num 0)),
      createdAt = None\<rparr>"

text \<open>Two invalid items: the first has price 0, the second quantity 0.\<close>

definition twoInvalidItemsOrder :: Order where
  "twoInvalidItemsOrder =
     \<lparr>order_id = ''400'',
      items = Some [\<lparr>item_id = ''a'', price = num 0, quantity = num 1\<rparr>,
                    \<lparr>item_id = ''b'', price = num 5, quantity = num 0\<rparr>],
      customer = Some (customerSpending (num 0)),
      createdAt = None\<rparr>"

text \<open>Seventeen units at price 1, for a customer who has spent 1200.\<close>

definition seventeenUnitsOrder :: Order where
  "seventeenUnitsOrder =
     \<lparr>order_id = ''500'',
      items = Some [\<lparr>item_id = ''a'', price = num 1, quantity = num 17\<rparr>],
      customer = Some (customerSpending (num 1200)),
      createdAt = None\<rparr>"

text \<open>Ten units at price \<^verbatim>\<open>1e308\<close>, for a customer who has spent 1200.\<close>

definition hugeOrder :: Order where
  "hugeOrder =
     \<lparr>order_id = ''600'',
      items = Some [\<lparr>item_id = ''a'', price = num (10 ^ 308), quantity = num 10\<rparr>],
      customer = Some (customerSpending (num 1200)),
      createdAt = None\<rparr>"

text \<open>Metadata of a large order of a premium customer.\<close>

definition premiumLarge :: order_metadata where
  "premiumLarge = \<lparr>itemCount = 1, hasMultipleItems = False, isLargeOrder = True, customerTier = Premium\<rparr>"


definition rebateOptions :: Options where
  "rebateOptions = noOptions\<lparr>adjustments := Some [Some \<lparr>amount = num (- 100)\<rparr>]\<rparr>"

definition statisticsOptions :: Options where
  "statisticsOptions = noOptions\<lparr>includeStatistics := True\<rparr>"

text \<open>A second clock reading in the same month as \<open>january\<close>.\<close>

definition januaryLater :: date where
  "januaryLater = \<lparr>getTime = 1768867200000, toISOString = ''2026-01-20T00:00:00.000Z'', getMonth = 0\<rparr>"

text \<open>A batch with a valid order, a \<^verbatim>\<open>null\<close>, an order with invalid items and a large
  order.\<close>

definition mixedBatch :: "Order option list" where
  "mixedBatch = [Some exampleOrder, None, Some twoInvalidItemsOrder, Some elevenUnitsOrder]"

text \<open>The state of a processor that has processed the example order once.\<close>

definition usedState :: processor_state where
  "usedState = fst (OrderProcessor_processOrders [Some exampleOrder] statisticsOptions january constructor)"

section \<open>Observations on the class\<close>

text \<open>The three entries the callback can push on \<^verbatim>\<open>failedOrders\<close>.\<close>

definition validationEntry :: "Order option \<Rightarrow> validationResult \<Rightarrow> nat \<Rightarrow> date \<Rightarrow> failure" where
  "validationEntry order vr index now =
     \<lparr>f_order = order, f_index = index, reason = ''validation_failed'',
      f_errors = Some (errors vr), f_error = None, timestamp = toISOString now\<rparr>"

definition completionEntry :: "Order option \<Rightarrow> nat \<Rightarrow> date \<Rightarrow> failure" where
  "completionEntry order index now =
     \<lparr>f_order = order, f_index = index, reason = ''completion_failed'',
      f_errors = None, f_error = None, timestamp = toISOString now\<rparr>"

definition errorEntry :: "fault \<Rightarrow> Order option \<Rightarrow> nat \<Rightarrow> date \<Rightarrow> failure" where
  "errorEntry e order index now =
     \<lparr>f_order = order, f_index = index, reason = ''error'',
      f_errors = None, f_error = Some (message e), timestamp = toISOString now\<rparr>"

text \<open>Enrichment, pricing and discounts of the \<^verbatim>\<open>try\<close> block, without the state.\<close>

definition priceOrder :: "Options \<Rightarrow> date \<Rightarrow> Order option \<Rightarrow> fault + processed_order" where
  "priceOrder options now order =
     (case transformAndEnrichOrder order options now of
        Inl e \<Rightarrow> Inl e
      | Inr enriched \<Rightarrow>
          (case calculateComplexPricing enriched options of
             Inl e \<Rightarrow> Inl e
           | Inr pricing \<Rightarrow>
               (let priced = enriched_order.extend enriched
                      (priced_order.fields (pr_finalPrice pricing) (pr_breakdown pricing));
                    discounts = applyMultiLevelDiscounts priced options now
                in Inr (priced_order.extend priced
                      (processed_order.fields (dr_discountedPrice discounts) (dr_discounts discounts))))))"

text \<open>The outcome of one order: the entry pushed on \<^verbatim>\<open>failedOrders\<close> or the order
  pushed on \<^verbatim>\<open>processedOrders\<close>. \<open>processEntry_outcome\<close> below shows that the callback
  records exactly this.\<close>

definition entryOutcome :: "Options \<Rightarrow> date \<Rightarrow> nat \<Rightarrow> Order option \<Rightarrow> failure + processed_order" where
  "entryOutcome options now index order =
     (let vr = performComprehensiveValidation order options
      in if \<not> isValid vr then Inl (validationEntry order vr index now)
         else
           (case priceOrder options now order of
              Inl e \<Rightarrow> Inl (errorEntry e order index now)
            | Inr p \<Rightarrow>
                (case shouldCompleteOrder p options of
                   Inl e \<Rightarrow> Inl (errorEntry e order index now)
                 | Inr True \<Rightarrow> Inr p
                 | Inr False \<Rightarrow> Inl (completionEntry order index now))))"

definition record_outcome :: "failure + processed_order \<Rightarrow> processor_state \<Rightarrow> processor_state" where
  "record_outcome out st =
     (case out of
        Inl f \<Rightarrow> updateStatistics None (st\<lparr>failedOrders := failedOrders st @ [f]\<rparr>)
      | Inr p \<Rightarrow>
          updateStatistics (Some (discountedPrice p))
            (st\<lparr>processedOrders := processedOrders st @ [p]\<rparr>))"

fun returned :: "failure + processed_order \<Rightarrow> processed_order option" where
  "returned (Inl f) = None"
| "returned (Inr p) = Some p"

definition batchOutcomes ::
    "Options \<Rightarrow> date \<Rightarrow> nat \<Rightarrow> Order option list \<Rightarrow> (failure + processed_order) list" where
  "batchOutcomes options now index os =
     map (\<lambda>(i, order). entryOutcome options now i order) (enumerate index os)"

fun lefts :: "('a + 'b) list \<Rightarrow> 'a list" where
  "lefts [] = []"
| "lefts (Inl a # xs) = a # lefts xs"
| "lefts (Inr b # xs) = lefts xs"

fun rights :: "('a + 'b) list \<Rightarrow> 'b list" where
  "rights [] = []"
| "rights (Inl a # xs) = rights xs"
| "rights (Inr b # xs) = b # rights xs"

text \<open>An outcome without its clock reading: \<^verbatim>\<open>processedAt\<close> of a processed order and
  \<^verbatim>\<open>timestamp\<close> of a failure entry are blanked, every other field is kept.\<close>

definition untimedOrder :: "processed_order \<Rightarrow> processed_order" where
  "untimedOrder p = p\<lparr>processedAt := []\<rparr>"

definition untimedFailure :: "failure \<Rightarrow> failure" where
  "untimedFailure f = f\<lparr>timestamp := []\<rparr>"

text \<open>The entries a call has added to \<^verbatim>\<open>failedOrders\<close>, from the state before it and
  the state after it.\<close>

definition newFailures :: "processor_state \<Rightarrow> processor_state \<Rightarrow> failure list" where
  "newFailures st st' = drop (length (failedOrders st)) (failedOrders st')"

text \<open>The discount stack with its first two blocks exchanged: the volume block runs
  before the tier block. The source has no such function; it is the variant the order
  sensitivity of the stack is measured against.\<close>

definition applyVolumeBeforeTier :: "'a priced_order_scheme \<Rightarrow> Options \<Rightarrow> date \<Rightarrow> discountResult" where
  "applyVolumeBeforeTier order options now =
     (case seasonalStep now
             (promoStep options
               (tierStep (metadata order)
                 (volumeStep (metadata order) (finalPrice order, [])))) of
        (p, applied) \<Rightarrow> \<lparr>dr_discountedPrice = fmax (num 0) p, dr_discounts = applied\<rparr>)"

text \<open>The index an item-level error entry names.\<close>

fun itemIndex :: "validation_error \<Rightarrow> nat option" where
  "itemIndex (ItemMissingId i) = Some i"
| "itemIndex (ItemInvalidPrice i) = Some i"
| "itemIndex (ItemInvalidQuantity i) = Some i"
| "itemIndex e = None"

text \<open>\<^verbatim>\<open>totalSpent\<close> with its default: 0 without a customer, a purchase history or the
  field.\<close>

definition spentOrZero :: "Customer option \<Rightarrow> jsnum" where
  "spentOrZero c =
     (case c of
        None \<Rightarrow> num 0
      | Some cu \<Rightarrow>
          (case purchaseHistory cu of
             None \<Rightarrow> num 0
           | Some h \<Rightarrow> (case totalSpent h of None \<Rightarrow> num 0 | Some v \<Rightarrow> orElse v (num 0))))"

text \<open>The total quantity of an order: the sum of the quantities of its items, added in
  their order.\<close>

definition totalQuantity :: "Item list \<Rightarrow> jsnum" where
  "totalQuantity its = foldl (\<lambda>acc it. fadd acc (quantity it)) (num 0) its"

section \<open>Lemmas on the class\<close>

subsection \<open>What the callback records\<close>

lemma processEntry_outcome:
  "processEntry options now index order st =
     (record_outcome (entryOutcome options now index order) st,
      returned (entryOutcome options now index order))"
  by (simp add: processEntry_def tryBlock_def entryOutcome_def priceOrder_def record_outcome_def Let_def
      handleValidationFailure_def handleCompletionFailure_def handleError_def
      validationEntry_def completionEntry_def errorEntry_def
      split: sum.splits bool.splits)

lemma record_outcome_lists:
  "failedOrders (record_outcome out st) = failedOrders st @ lefts [out]"
  "processedOrders (record_outcome out st) = processedOrders st @ rights [out]"
  "orders (record_outcome out st) = orders st"
  by (cases out; simp add: record_outcome_def updateStatistics_def Let_def)+




lemma mapOrders_outcomes:
  "mapOrders options now index os st = (st', rs) \<Longrightarrow>
     rs = map returned (batchOutcomes options now index os) \<and>
     failedOrders st' = failedOrders st @ lefts (batchOutcomes options now index os) \<and>
     processedOrders st' = processedOrders st @ rights (batchOutcomes options now index os) \<and>
     orders st' = orders st"
proof (induction os arbitrary: index st st' rs)
  case Nil
  then show ?case by (simp add: batchOutcomes_def)
next
  case (Cons order rest)
  let ?out = "entryOutcome options now index order"
  obtain st2 rs2 where m: "mapOrders options now (Suc index) rest (record_outcome ?out st) = (st2, rs2)"
    by (cases "mapOrders options now (Suc index) rest (record_outcome ?out st)")
  from Cons.prems m have eq: "st' = st2" "rs = returned ?out # rs2"
    by (simp_all add: processEntry_outcome)
  have b: "batchOutcomes options now index (order # rest) =
             ?out # batchOutcomes options now (Suc index) rest"
    by (simp add: batchOutcomes_def enumerate_simps)
  from Cons.IH [OF m] eq b show ?case
    by (cases ?out) (simp_all add: record_outcome_lists)
qed



lemma processOrders_outcomes:
  assumes "OrderProcessor_processOrders os options now st = (st', rs, resp)"
  shows "rs = map returned (batchOutcomes options now 0 os)"
    and "newFailures st st' = lefts (batchOutcomes options now 0 os)"
proof -
  let ?st0 = "st\<lparr>st_metadata := (st_metadata st)\<lparr>processingStartTime := Some (getTime now)\<rparr>,
                  orders := os\<rparr>"
  obtain st1 rs1 where m: "mapOrders options now 0 os ?st0 = (st1, rs1)"
    by (cases "mapOrders options now 0 os ?st0")
  from assms m have eq: "st' = finalizeProcessing now st1" "rs = rs1"
    by (simp_all add: OrderProcessor_processOrders_def Let_def)
  from mapOrders_outcomes [OF m] eq show "rs = map returned (batchOutcomes options now 0 os)"
    by simp
  from mapOrders_outcomes [OF m] eq
  show "newFailures st st' = lefts (batchOutcomes options now 0 os)"
    by (simp add: newFailures_def finalizeProcessing_def Let_def)
qed

subsection \<open>The clock enters an outcome through the timestamps and the test for December only\<close>

lemma priceOrder_untimed:
  assumes "(getMonth now1 = 11) = (getMonth now2 = 11)"
  shows "map_sum id untimedOrder (priceOrder options now1 order) =
         map_sum id untimedOrder (priceOrder options now2 order)"
  using assms
  by (simp add: priceOrder_def transformAndEnrichOrder_def calculateComplexPricing_def
        applyMultiLevelDiscounts_def seasonalStep_def untimedOrder_def Let_def
        Order.defs enriched_order.defs priced_order.defs processed_order.defs
      split: option.splits sum.splits prod.splits)

lemma shouldCompleteOrder_untimed:
  "shouldCompleteOrder (untimedOrder p) options = shouldCompleteOrder p options"
  by (simp add: shouldCompleteOrder_def untimedOrder_def)

lemma entryOutcome_untimed:
  assumes "(getMonth now1 = 11) = (getMonth now2 = 11)"
  shows "map_sum untimedFailure untimedOrder (entryOutcome options now1 index order) =
         map_sum untimedFailure untimedOrder (entryOutcome options now2 index order)"
proof (cases "isValid (performComprehensiveValidation order options)")
  case False
  then show ?thesis
    by (simp add: entryOutcome_def validationEntry_def untimedFailure_def)
next
  case True
  note ok = this
  show ?thesis
  proof (cases "priceOrder options now1 order")
    case (Inl e)
    with priceOrder_untimed [OF assms, of options order]
    have "priceOrder options now2 order = Inl e"
      by (cases "priceOrder options now2 order") simp_all
    with Inl ok show ?thesis
      by (simp add: entryOutcome_def errorEntry_def untimedFailure_def)
  next
    case (Inr p1)
    with priceOrder_untimed [OF assms, of options order]
    obtain p2 where p2: "priceOrder options now2 order = Inr p2" "untimedOrder p1 = untimedOrder p2"
      by (cases "priceOrder options now2 order") simp_all
    have "shouldCompleteOrder p1 options = shouldCompleteOrder p2 options"
      using shouldCompleteOrder_untimed [of p1 options] shouldCompleteOrder_untimed [of p2 options] p2(2)
      by simp
    with Inr p2 ok show ?thesis
      by (simp add: entryOutcome_def errorEntry_def completionEntry_def untimedFailure_def
          split: sum.splits bool.splits)
  qed
qed

lemma lefts_map_sum: "lefts (map (map_sum f g) xs) = map f (lefts xs)"
  by (induction xs rule: lefts.induct) simp_all

lemma returned_map_sum: "returned (map_sum f g x) = map_option g (returned x)"
  by (cases x) simp_all

lemma batchOutcomes_untimed:
  assumes "(getMonth now1 = 11) = (getMonth now2 = 11)"
  shows "map (map_sum untimedFailure untimedOrder) (batchOutcomes options now1 index os) =
         map (map_sum untimedFailure untimedOrder) (batchOutcomes options now2 index os)"
  using entryOutcome_untimed [OF assms]
  by (simp add: batchOutcomes_def split_def)

lemma processOrders_untimed:
  assumes "(getMonth now1 = 11) = (getMonth now2 = 11)"
  shows "map (map_option untimedOrder) (fst (snd (OrderProcessor_processOrders os options now1 st1))) =
         map (map_option untimedOrder) (fst (snd (OrderProcessor_processOrders os options now2 st2)))"
    and "map untimedFailure (newFailures st1 (fst (OrderProcessor_processOrders os options now1 st1))) =
         map untimedFailure (newFailures st2 (fst (OrderProcessor_processOrders os options now2 st2)))"
proof -
  let ?b1 = "batchOutcomes options now1 0 os" and ?b2 = "batchOutcomes options now2 0 os"
  let ?u = "map_sum untimedFailure untimedOrder"
  obtain s1 r1 a1 where c1: "OrderProcessor_processOrders os options now1 st1 = (s1, r1, a1)"
    by (cases "OrderProcessor_processOrders os options now1 st1")
  obtain s2 r2 a2 where c2: "OrderProcessor_processOrders os options now2 st2 = (s2, r2, a2)"
    by (cases "OrderProcessor_processOrders os options now2 st2")
  have e: "map ?u ?b1 = map ?u ?b2"
    by (rule batchOutcomes_untimed [OF assms])
  have "map (map_option untimedOrder) r1 = map returned (map ?u ?b1)"
    using processOrders_outcomes(1) [OF c1] by (simp add: returned_map_sum)
  moreover have "map (map_option untimedOrder) r2 = map returned (map ?u ?b2)"
    using processOrders_outcomes(1) [OF c2] by (simp add: returned_map_sum)
  ultimately
  show "map (map_option untimedOrder) (fst (snd (OrderProcessor_processOrders os options now1 st1))) =
        map (map_option untimedOrder) (fst (snd (OrderProcessor_processOrders os options now2 st2)))"
    using e c1 c2 by simp
  have "map untimedFailure (newFailures st1 s1) = lefts (map ?u ?b1)"
    using processOrders_outcomes(2) [OF c1] by (simp add: lefts_map_sum)
  moreover have "map untimedFailure (newFailures st2 s2) = lefts (map ?u ?b2)"
    using processOrders_outcomes(2) [OF c2] by (simp add: lefts_map_sum)
  ultimately
  show "map untimedFailure (newFailures st1 (fst (OrderProcessor_processOrders os options now1 st1))) =
        map untimedFailure (newFailures st2 (fst (OrderProcessor_processOrders os options now2 st2)))"
    using e c1 c2 by simp
qed

lemma breakdownOf_untimed: "breakdownOf (untimedOrder p) = breakdownOf p"
  by (simp add: breakdownOf_def untimedOrder_def)

text \<open>The numbers of the worked example, in any month but December and on a processor in
  any state.\<close>

lemma example1_class_outside_december:
  assumes "getMonth now \<noteq> 11"
  shows "map (map_option breakdownOf)
           (fst (snd (OrderProcessor_processOrders [Some exampleOrder] exampleOptions now st))) =
         [Some (num 20, num 2, ratio 25 10, ratio 245 10,
                [(''tier'', ratio 245 100), (''promotional'', ratio 2205 1000)],
                ratio 19845 1000)]"
proof -
  let ?r = "\<lambda>n s. fst (snd (OrderProcessor_processOrders [Some exampleOrder] exampleOptions n s))"
  from assms have m: "(getMonth now = 11) = (getMonth january = 11)"
    by (simp add: january_def)
  have j: "map (map_option breakdownOf) (?r january constructor) =
      [Some (num 20, num 2, ratio 25 10, ratio 245 10,
             [(''tier'', ratio 245 100), (''promotional'', ratio 2205 1000)],
             ratio 19845 1000)]"
    by code_simp
  have "map (map_option breakdownOf) (?r now st) =
        map (map_option breakdownOf) (map (map_option untimedOrder) (?r now st))"
    by (simp add: option.map_comp comp_def breakdownOf_untimed)
  also have "\<dots> = map (map_option breakdownOf) (map (map_option untimedOrder) (?r january constructor))"
    using processOrders_untimed(1) [OF m, of "[Some exampleOrder]" exampleOptions st constructor]
    by simp
  also have "\<dots> = map (map_option breakdownOf) (?r january constructor)"
    by (simp add: option.map_comp comp_def breakdownOf_untimed)
  finally show ?thesis using j by simp
qed

text \<open>An order's outcome in a batch is its outcome when priced alone, up to the position
  a failure entry records.\<close>

lemma entryOutcome_alone:
  "map_sum (\<lambda>f. f\<lparr>f_index := 0\<rparr>) id (entryOutcome options now index order) =
   map_sum (\<lambda>f. f\<lparr>f_index := 0\<rparr>) id (entryOutcome options now 0 order)"
  by (simp add: entryOutcome_def errorEntry_def completionEntry_def validationEntry_def Let_def
      split: sum.splits bool.splits)

subsection \<open>Numbers\<close>

text \<open>The literal \<^verbatim>\<open>0.1\<close> and the sum \<^verbatim>\<open>0.1 + 0.2\<close>, which is
  \<^verbatim>\<open>0.30000000000000004\<close> and not \<^verbatim>\<open>0.3\<close>.\<close>

lemma ratio_1_10: "ratio 1 10 = Fin 3602879701896397 (- 55)"
  by code_simp

lemma sum_of_tenths:
  "fadd (ratio 1 10) (ratio 2 10) = ratio 30000000000000004 100000000000000000"
  "fadd (ratio 1 10) (ratio 2 10) \<noteq> ratio 3 10"
  by code_simp+

lemma num_0: "num 0 = Fin 0 0"
  by (simp add: num_def round64_def)

lemma fle_NaN: "\<not> fle x NaN" "\<not> fle NaN x"
  by (simp_all add: fle_def)

text \<open>\<^verbatim>\<open>Math.max(0, x)\<close> is at least 0 unless it is NaN, and it is NaN exactly when
  \<open>x\<close> is.\<close>

lemma fmax_0_NaN: "fmax (num 0) x = NaN \<longleftrightarrow> x = NaN"
  by (simp add: fmax_def num_0)

lemma fmax_0_nonneg: "x \<noteq> NaN \<Longrightarrow> fle (num 0) (fmax (num 0) x)"
  by (cases x) (auto simp: fmax_def fle_def num_0 Let_def shl_def zero_less_mult_iff mult_less_0_iff)

subsection \<open>The discount stack\<close>

lemma discountedPrice_clamped:
  "dr_discountedPrice (applyMultiLevelDiscounts order options now) =
     fmax (num 0) (fst (seasonalStep now (promoStep options
       (volumeStep (metadata order) (tierStep (metadata order) (finalPrice order, []))))))"
  by (simp add: applyMultiLevelDiscounts_def case_prod_beta)

lemma priceOrder_clamped:
  assumes "priceOrder options now order = Inr p"
  shows "\<exists>x. discountedPrice p = fmax (num 0) x"
  using assms
  by (auto simp: priceOrder_def Let_def discountedPrice_clamped processed_order.defs priced_order.defs
      split: sum.splits)

text \<open>The discounted price of the class is at least 0 unless it is NaN.\<close>

lemma class_price_nonneg_unless_NaN:
  assumes "priceOrder options now order = Inr p" and "discountedPrice p \<noteq> NaN"
  shows "fle (num 0) (discountedPrice p)"
proof -
  from priceOrder_clamped [OF assms(1)] obtain x where x: "discountedPrice p = fmax (num 0) x"
    by blast
  with assms(2) have "x \<noteq> NaN" by (simp add: fmax_0_NaN)
  then show ?thesis unfolding x by (rule fmax_0_nonneg)
qed

text \<open>A negative running total is clamped: with an adjustment of -100 the example order
  has the total -75.5 before discounts and the discounted price 0.\<close>

lemma class_clamps_negative_total:
  "map_sum id breakdownOf (priceOrder rebateOptions january (Some exampleOrder)) =
     Inr (num 20, num 2, ratio 25 10, ratio (- 755) 10,
          [(''tier'', ratio (- 7550000000000001) 1000000000000000)], num 0)"
  by code_simp

text \<open>So is the final price of the refactoring.\<close>

lemma refactored_price_nonneg_unless_NaN:
  assumes "calculateFinalPrice order promoCode now = Inr pr" and "p_finalPrice pr \<noteq> NaN"
  shows "fle (num 0) (p_finalPrice pr)"
proof -
  from assms(1) obtain x where x: "p_finalPrice pr = fmax (num 0) x"
    by (auto simp: calculateFinalPrice_def Let_def split: option.splits list.splits)
  with assms(2) have "x \<noteq> NaN" by (simp add: fmax_0_NaN)
  then show ?thesis unfolding x by (rule fmax_0_nonneg)
qed

text \<open>In the class, each amount is the rate times the total the earlier discounts have
  left: with all four discounts in force, the amounts are 10% of the total before
  discounts, 5% of what the tier discount leaves, the promotional rate of what the volume
  discount leaves, and 15% of what the promotional discount leaves.\<close>

lemma class_discounts_on_running_total:
  assumes "customerTier (metadata order) = Premium"
      and "isLargeOrder (metadata order)"
      and "promotionalCode options = Some code" and "code \<noteq> []"
      and "lookup codes code = Own r" and "\<not> falsy r"
      and "getMonth now = 11"
      and "fgt (fmul (fsub (fsub (finalPrice order) (fmul (finalPrice order) (ratio 1 10)))
                          (fmul (fsub (finalPrice order) (fmul (finalPrice order) (ratio 1 10)))
                                (ratio 5 100))) r) (num 0)"
  shows "map d_amount (dr_discounts (applyMultiLevelDiscounts order options now)) =
     (let p0 = finalPrice order;
          t = fmul p0 (ratio 1 10); p1 = fsub p0 t;
          v = fmul p1 (ratio 5 100); p2 = fsub p1 v;
          c = fmul p2 r; p3 = fsub p2 c;
          s = fmul p3 (ratio 15 100)
      in [t, v, c, s])"
  using assms
  by (simp add: applyMultiLevelDiscounts_def tierStep_def volumeStep_def promoStep_def
      seasonalStep_def calculatePromotionalDiscount_def Let_def)

text \<open>For a total before discounts of 100 the tier block and the volume block give 85.5
  in either order.\<close>

lemma tier_volume_agree_at_100:
  "fst (volumeStep premiumLarge (tierStep premiumLarge (num 100, []))) = ratio 855 10"
  "fst (tierStep premiumLarge (volumeStep premiumLarge (num 100, []))) = ratio 855 10"
  by code_simp+

subsection \<open>Fee and volume discount of the class follow the total quantity\<close>

lemma class_large_order_by_quantity:
  assumes "items ord = Some its"
      and "transformAndEnrichOrder (Some ord) options now = Inr enriched"
  shows "isLargeOrder (metadata enriched) = fgt (totalQuantity its) (num 10)"
  using assms
  by (auto simp: transformAndEnrichOrder_def Let_def totalQuantity_def
      Order.defs enriched_order.defs)

lemma class_fee_by_quantity:
  assumes "items ord = Some its"
      and "transformAndEnrichOrder (Some ord) options now = Inr enriched"
      and "applyFees options \<noteq> Some False"
      and "calculateComplexPricing enriched options = Inr pricing"
  shows "fees (pr_breakdown pricing) = (if fgt (totalQuantity its) (num 10) then num 5 else ratio 5 2)"
  using assms(3,4) class_large_order_by_quantity [OF assms(1,2)]
  by (auto simp: calculateComplexPricing_def Let_def split: option.splits sum.splits)

lemma class_volume_by_quantity:
  "volumeStep m (p, a) =
     (if isLargeOrder m
      then (fsub p (fmul p (ratio 5 100)),
            a @ [\<lparr>d_type = ''volume'', d_amount = fmul p (ratio 5 100), d_percentage = Some (num 5),
                   d_code = None\<rparr>])
      else (p, a))"
  by (simp add: volumeStep_def Let_def)

subsection \<open>The class reports every invalid item\<close>

lemma itemErrors_index: "e \<in> set (itemErrors i it) \<Longrightarrow> itemIndex e = Some i"
  by (auto simp: itemErrors_def split: if_splits)

lemma itemErrors_invalid: "invalidItem it \<Longrightarrow> itemErrors i it \<noteq> []"
  by (auto simp: itemErrors_def invalidItem_def)

lemma class_reports_invalid_item:
  assumes "items ord = Some its" and "i < length its" and "invalidItem (its ! i)"
  shows "\<exists>e \<in> set (errors (performComprehensiveValidation (Some ord) options)). itemIndex e = Some i"
proof -
  from itemErrors_invalid [OF assms(3), of i]
  obtain e where e: "e \<in> set (itemErrors i (its ! i))"
    by (cases "itemErrors i (its ! i)") auto
  from assms(2) have "(i, its ! i) \<in> set (enumerate 0 its)"
    by (auto simp: in_set_enumerate_eq)
  with e assms(1,2) have "e \<in> set (itemsErrors ord)"
    by (force simp: itemsErrors_def)
  then have "e \<in> set (errors (performComprehensiveValidation (Some ord) options))"
    by (simp add: performComprehensiveValidation_def Let_def)
  with itemErrors_index [OF e] show ?thesis by blast
qed

lemma class_reports_two_invalid_items:
  assumes "items ord = Some its" and "i < length its" and "j < length its" and "i \<noteq> j"
      and "invalidItem (its ! i)" and "invalidItem (its ! j)"
  shows "\<exists>e1 e2. e1 \<in> set (errors (performComprehensiveValidation (Some ord) options)) \<and>
                 e2 \<in> set (errors (performComprehensiveValidation (Some ord) options)) \<and>
                 e1 \<noteq> e2 \<and> itemIndex e1 = Some i \<and> itemIndex e2 = Some j"
  using class_reports_invalid_item [OF assms(1,2,5), of options]
        class_reports_invalid_item [OF assms(1,3,6), of options] assms(4)
  by force

subsection \<open>The tier thresholds of the two implementations\<close>

lemma getCustomerTier_thresholds:
  "getCustomerTier c =
     (if fge (spentOrZero c) (num 1000) then Premium
      else if fge (spentOrZero c) (num 500) then Gold
      else Standard)"
  by (simp add: getCustomerTier_def spentOrZero_def Let_def)

lemma zero_below_thresholds: "\<not> fgt (num 0) (num 500)" "\<not> fgt (num 0) (num 1000)"
  by code_simp+

lemma determineCustomerTier_thresholds:
  "determineCustomerTier c =
     (if fgt (spentOrZero c) (num 1000) then Premium
      else if fgt (spentOrZero c) (num 500) then Gold
      else Standard)"
  by (cases c) (simp_all add: spentOrZero_def Let_def zero_below_thresholds split: option.splits)

section \<open>The claims\<close>

text \<open>
  C1. For the example order (one item of price 10 and quantity 2, a customer with
  \<open>totalSpent\<close> 1200) with tax rate 0.1 and promotional code SAVE10 outside December,
  the pipeline is claimed to produce subtotal 20, tax 2, fee 2.5, total before discounts
  24.5, a tier discount of 2.45, no volume discount, a promotional discount of 2.205
  (10% of 22.05), no seasonal discount, the final price 19.845, and to accept the order.
  The class produces exactly these numbers and accepts the order. The refactored
  \<open>processOrders\<close> accepts it too and agrees up to the tier discount, but takes the
  promotional discount from the total before discounts: 2.45, and the final price 19.6.
\<close>

theorem example1_class_and_refactoring:
  "(case OrderProcessor_processOrders [Some exampleOrder] exampleOptions january constructor of
      (st, results, resp) \<Rightarrow>
        map (map_option breakdownOf) results =
          [Some (num 20, num 2, ratio 25 10, ratio 245 10,
                 [(''tier'', ratio 245 100), (''promotional'', ratio 2205 1000)],
                 ratio 19845 1000)] \<and>
        processed resp = 1 \<and> failed resp = 0) \<and>
   processOrders [Some exampleOrder] (Some ''SAVE10'') january =
     Inr \<lparr>s_total = 1, successful = 1, s_failed = 0,
          s_orders =
            [\<lparr>a_id = ''123'', a_customerId = ''cust1'', a_itemCount = 1,
              a_pricing =
                \<lparr>p_subtotal = num 20, p_tax = num 2, p_fee = ratio 25 10, p_total = ratio 245 10,
                 p_discounts = \<lparr>tier_amount = ratio 245 100, volume = num 0,
                                promotional = ratio 245 100, seasonal = num 0\<rparr>,
                 p_finalPrice = ratio 196 10\<rparr>\<rparr>]\<rparr>"
  by code_simp

text \<open>
  C2. The four discounts are claimed to be applied one after the other, in the order tier,
  volume, promotional, seasonal, each amount being its percentage of the total that the
  earlier discounts have left. For one item of price 100 bought by a premium customer with
  code SAVE20 in December (total before discounts 112.5), the class does so: 11.25, then
  20% of 101.25 = 20.25, then 15% of 81 = 12.15, final price 68.85. The refactored
  \<open>calculateFinalPrice\<close> takes every percentage of 112.5 (11.25, 22.5 and 16.875) and
  subtracts their sum: final price 61.875.
\<close>

theorem refactored_discounts_use_original_total:
  "map (map_option breakdownOf)
     (fst (snd (OrderProcessor_processOrders [Some singleItemOrder]
        (noOptions\<lparr>promotionalCode := Some ''SAVE20''\<rparr>) december constructor))) =
     [Some (num 100, num 10, ratio 25 10, ratio 1125 10,
            [(''tier'', ratio 1125 100), (''promotional'', ratio 2025 100),
             (''seasonal'', ratio 1215 100)],
            ratio 6885 100)] \<and>
   calculateFinalPrice singleItemOrder (Some ''SAVE20'') december =
     Inr \<lparr>p_subtotal = num 100, p_tax = num 10, p_fee = ratio 25 10, p_total = ratio 1125 10,
          p_discounts = \<lparr>tier_amount = ratio 1125 100, volume = num 0,
                         promotional = ratio 225 10, seasonal = ratio 16875 1000\<rparr>,
          p_finalPrice = ratio 61875 1000\<rparr>"
  by code_simp

text \<open>
  C3. The fee is claimed to be 5.00 exactly when the sum of the item quantities exceeds 10,
  and 2.50 otherwise, and the 5% volume discount to be decided by the same total quantity.
  For an order of two line items with quantities 1 and 10 (prices 100 and 1, total
  quantity 11) the class charges the fee 5 and grants the volume discount (5% of 126,
  which is 6.300000000000001 in doubles). The refactored \<open>calculateFinalPrice\<close>
  compares the subtotal divided by the first price (110 / 100) with the threshold for
  the fee, and the number of line items (2) for the volume discount: fee 2.5 and no
  volume discount.
\<close>

theorem refactored_fee_and_volume_basis:
  "map_option totalQuantity (items elevenUnitsOrder) = Some (num 11) \<and>
   map (map_option breakdownOf)
     (fst (snd (OrderProcessor_processOrders [Some elevenUnitsOrder] noOptions january constructor))) =
     [Some (num 110, num 11, num 5, num 126,
            [(''volume'', ratio 6300000000000001 1000000000000000)], ratio 1197 10)] \<and>
   calculateFinalPrice elevenUnitsOrder None january =
     Inr \<lparr>p_subtotal = num 110, p_tax = num 11, p_fee = ratio 25 10, p_total = ratio 1235 10,
          p_discounts = \<lparr>tier_amount = num 0, volume = num 0, promotional = num 0, seasonal = num 0\<rparr>,
          p_finalPrice = ratio 1235 10\<rparr>"
  by code_simp

text \<open>
  C4. Validation is claimed to evaluate every rule and to return the complete error list,
  with two distinct item-level entries, each naming its index, for an order with two
  invalid items. For an order whose item 0 has price 0 and whose item 1 has quantity 0,
  \<open>performComprehensiveValidation\<close> of the class returns the two entries
  \<^verbatim>\<open>Item 0 has invalid price\<close> and \<^verbatim>\<open>Item 1 has invalid quantity\<close>. The refactored
  \<open>validateOrder\<close> returns at the first invalid item with the single message
  \<^verbatim>\<open>Invalid item data\<close>, which names no index.
\<close>

theorem refactored_validation_stops_at_first_item:
  "errors (performComprehensiveValidation (Some twoInvalidItemsOrder) noOptions) =
     [ItemInvalidPrice 0, ItemInvalidQuantity 1] \<and>
   validateOrder (Some twoInvalidItemsOrder) = \<lparr>valid = False, error = Some ''Invalid item data''\<rparr>"
  by code_simp



text \<open>
  C6. The tier is claimed to be premium exactly when \<open>totalSpent\<close> (0 when absent) is at
  least 1000, gold exactly when it is at least 500 and below 1000, and standard otherwise;
  a customer at exactly 1000 is premium and one at exactly 500 is gold. The refactored
  \<open>getCustomerTier\<close> does so. \<open>determineCustomerTier\<close> of the class compares with
  \<^verbatim>\<open>>\<close>: a customer at exactly 1000 is gold and one at exactly 500 is standard.
\<close>

theorem class_tier_thresholds_are_strict:
  "determineCustomerTier (Some (customerSpending (num 1000))) = Gold \<and>
   getCustomerTier (Some (customerSpending (num 1000))) = Premium \<and>
   determineCustomerTier (Some (customerSpending (num 500))) = Standard \<and>
   getCustomerTier (Some (customerSpending (num 500))) = Gold"
  by code_simp

text \<open>
  C7. There is an order with a nonzero tier discount and a nonzero volume discount for
  which the tier block before the volume block gives another discounted price than the
  volume block before the tier block: for seventeen units at price 1 bought by a premium
  customer (total before discounts 23.7), \<open>applyMultiLevelDiscounts\<close> records the tier
  discount 2.37 and the volume discount 1.0665 and returns 20.263499999999997, and with
  the two blocks exchanged the discounts are 1.185 and 2.2515 and the price is 20.2635.
  The two prices differ in the last binary digit, by the rounding of the intermediate
  results (see \<open>tier_volume_agree_at_100\<close> for a total on which they agree).
\<close>

theorem tier_volume_order_changes_price:
  "(\<exists>order options now p.
      isValid (performComprehensiveValidation (Some order) options) \<and>
      priceOrder options now (Some order) = Inr p \<and>
      (\<exists>t v. map (\<lambda>d. (d_type d, d_amount d)) (appliedDiscounts p) = [(''tier'', t), (''volume'', v)] \<and>
             \<not> falsy t \<and> \<not> falsy v) \<and>
      (\<exists>v t. map (\<lambda>d. (d_type d, d_amount d)) (dr_discounts (applyVolumeBeforeTier p options now)) =
               [(''volume'', v), (''tier'', t)] \<and>
             \<not> falsy t \<and> \<not> falsy v) \<and>
      discountedPrice p = dr_discountedPrice (applyMultiLevelDiscounts p options now) \<and>
      dr_discountedPrice (applyVolumeBeforeTier p options now) \<noteq> discountedPrice p) \<and>
   map_sum id breakdownOf (priceOrder noOptions january (Some seventeenUnitsOrder)) =
     Inr (num 17, ratio 17000000000000002 10000000000000000, num 5, ratio 237 10,
          [(''tier'', ratio 237 100), (''volume'', ratio 10665 10000)],
          ratio 20263499999999997 1000000000000000) \<and>
   map_sum id (\<lambda>p. applyVolumeBeforeTier p noOptions january)
       (priceOrder noOptions january (Some seventeenUnitsOrder)) =
     Inr \<lparr>dr_discountedPrice = ratio 202635 10000,
          dr_discounts =
            [\<lparr>d_type = ''volume'', d_amount = ratio 1185 1000, d_percentage = Some (num 5),
              d_code = None\<rparr>,
             \<lparr>d_type = ''tier'', d_amount = ratio 22515 10000, d_percentage = Some (num 10),
              d_code = None\<rparr>]\<rparr>"
proof (intro conjI)
  obtain p where p: "priceOrder noOptions january (Some seventeenUnitsOrder) = Inr p"
    and b: "breakdownOf p =
          (num 17, ratio 17000000000000002 10000000000000000, num 5, ratio 237 10,
           [(''tier'', ratio 237 100), (''volume'', ratio 10665 10000)],
           ratio 20263499999999997 1000000000000000)"
    and s: "applyVolumeBeforeTier p noOptions january =
          \<lparr>dr_discountedPrice = ratio 202635 10000,
           dr_discounts =
             [\<lparr>d_type = ''volume'', d_amount = ratio 1185 1000, d_percentage = Some (num 5),
               d_code = None\<rparr>,
              \<lparr>d_type = ''tier'', d_amount = ratio 22515 10000, d_percentage = Some (num 10),
               d_code = None\<rparr>]\<rparr>"
    and a: "dr_discountedPrice (applyMultiLevelDiscounts p noOptions january) =
          ratio 20263499999999997 1000000000000000"
  proof -
    have "map_sum id (\<lambda>p. (breakdownOf p, applyVolumeBeforeTier p noOptions january,
                dr_discountedPrice (applyMultiLevelDiscounts p noOptions january)))
            (priceOrder noOptions january (Some seventeenUnitsOrder)) =
          Inr ((num 17, ratio 17000000000000002 10000000000000000, num 5, ratio 237 10,
                [(''tier'', ratio 237 100), (''volume'', ratio 10665 10000)],
                ratio 20263499999999997 1000000000000000),
               \<lparr>dr_discountedPrice = ratio 202635 10000,
                dr_discounts =
                  [\<lparr>d_type = ''volume'', d_amount = ratio 1185 1000, d_percentage = Some (num 5),
                    d_code = None\<rparr>,
                   \<lparr>d_type = ''tier'', d_amount = ratio 22515 10000, d_percentage = Some (num 10),
                    d_code = None\<rparr>]\<rparr>,
               ratio 20263499999999997 1000000000000000)"
      by code_simp
    then show ?thesis
      by (cases "priceOrder noOptions january (Some seventeenUnitsOrder)") (auto intro: that)
  qed
  have v: "isValid (performComprehensiveValidation (Some seventeenUnitsOrder) noOptions)"
    by code_simp
  have n: "\<not> falsy (ratio 237 100)" "\<not> falsy (ratio 10665 10000)"
          "\<not> falsy (ratio 1185 1000)" "\<not> falsy (ratio 22515 10000)"
          "ratio 202635 10000 \<noteq> ratio 20263499999999997 1000000000000000"
    by code_simp+
  from b have d: "map (\<lambda>d. (d_type d, d_amount d)) (appliedDiscounts p) =
                    [(''tier'', ratio 237 100), (''volume'', ratio 10665 10000)]"
    and dp: "discountedPrice p = ratio 20263499999999997 1000000000000000"
    by (simp_all add: breakdownOf_def)
  from s have d': "map (\<lambda>d. (d_type d, d_amount d)) (dr_discounts (applyVolumeBeforeTier p noOptions january)) =
                    [(''volume'', ratio 1185 1000), (''tier'', ratio 22515 10000)]"
    and dp': "dr_discountedPrice (applyVolumeBeforeTier p noOptions january) = ratio 202635 10000"
    by simp_all
  show "\<exists>order options now p.
      isValid (performComprehensiveValidation (Some order) options) \<and>
      priceOrder options now (Some order) = Inr p \<and>
      (\<exists>t v. map (\<lambda>d. (d_type d, d_amount d)) (appliedDiscounts p) = [(''tier'', t), (''volume'', v)] \<and>
             \<not> falsy t \<and> \<not> falsy v) \<and>
      (\<exists>v t. map (\<lambda>d. (d_type d, d_amount d)) (dr_discounts (applyVolumeBeforeTier p options now)) =
               [(''volume'', v), (''tier'', t)] \<and>
             \<not> falsy t \<and> \<not> falsy v) \<and>
      discountedPrice p = dr_discountedPrice (applyMultiLevelDiscounts p options now) \<and>
      dr_discountedPrice (applyVolumeBeforeTier p options now) \<noteq> discountedPrice p"
    using v p d d' n a dp dp'
    by (intro exI [of _ seventeenUnitsOrder] exI [of _ noOptions] exI [of _ january] exI [of _ p]) simp
  show "map_sum id breakdownOf (priceOrder noOptions january (Some seventeenUnitsOrder)) =
     Inr (num 17, ratio 17000000000000002 10000000000000000, num 5, ratio 237 10,
          [(''tier'', ratio 237 100), (''volume'', ratio 10665 10000)],
          ratio 20263499999999997 1000000000000000)"
    using p b by simp
  show "map_sum id (\<lambda>p. applyVolumeBeforeTier p noOptions january)
       (priceOrder noOptions january (Some seventeenUnitsOrder)) =
     Inr \<lparr>dr_discountedPrice = ratio 202635 10000,
          dr_discounts =
            [\<lparr>d_type = ''volume'', d_amount = ratio 1185 1000, d_percentage = Some (num 5),
              d_code = None\<rparr>,
             \<lparr>d_type = ''tier'', d_amount = ratio 22515 10000, d_percentage = Some (num 10),
              d_code = None\<rparr>]\<rparr>"
    using p s by simp
qed

text \<open>
  C8. The final price is claimed to be at least 0 for every valid order and every choice
  of options, being the maximum of 0 and the running total. Both implementations take
  \<^verbatim>\<open>Math.max(0, .)\<close>, which is NaN for a running total that is NaN, and NaN is not at
  least 0. In the refactoring the promotional code \<^verbatim>\<open>constructor\<close> finds the member
  that \<^verbatim>\<open>PROMO_CODES\<close> inherits from \<^verbatim>\<open>Object.prototype\<close>: the promotional discount
  and the final price of the example order are NaN, and the order is accepted, since
  \<^verbatim>\<open>NaN < 10\<close> is false. In the class, ten units at price \<^verbatim>\<open>1e308\<close> for a premium
  customer have an infinite total, the tier discount subtracts Infinity from Infinity,
  and the discounted price is NaN; so it is with an adjustment whose amount is NaN.
  (Short of NaN the price is at least 0: \<open>class_price_nonneg_unless_NaN\<close>,
  \<open>refactored_price_nonneg_unless_NaN\<close>.)
\<close>

theorem clamp_lets_NaN_through:
  "processOrder (Some exampleOrder) (Some ''constructor'') january =
     Inr (Success
       \<lparr>a_id = ''123'', a_customerId = ''cust1'', a_itemCount = 1,
        a_pricing =
          \<lparr>p_subtotal = num 20, p_tax = num 2, p_fee = ratio 25 10, p_total = ratio 245 10,
           p_discounts = \<lparr>tier_amount = ratio 245 100, volume = num 0,
                          promotional = NaN, seasonal = num 0\<rparr>,
           p_finalPrice = NaN\<rparr>\<rparr>) \<and>
   map (map_option breakdownOf)
     (fst (snd (OrderProcessor_processOrders [Some hugeOrder] noOptions january constructor))) =
     [Some (PosInf, PosInf, ratio 25 10, PosInf, [(''tier'', PosInf)], NaN)] \<and>
   map (map_option breakdownOf)
     (fst (snd (OrderProcessor_processOrders [Some exampleOrder]
        (noOptions\<lparr>adjustments := Some [Some \<lparr>amount = NaN\<rparr>]\<rparr>) january constructor))) =
     [Some (num 20, num 2, ratio 25 10, NaN, [(''tier'', NaN)], NaN)] \<and>
   \<not> fle (num 0) NaN"
  by code_simp

text \<open>
  C9. Pricing by the class is deterministic up to the clock's month: two calls of
  \<open>processOrders\<close> with the same orders and the same options, at clock readings of the
  same month and on processors in any two states, return the same results and add the
  same failure entries (the same reasons, error lists and messages, the same pricing
  breakdowns, discounted prices and applied discounts), once \<^verbatim>\<open>processedAt\<close> and
  \<^verbatim>\<open>timestamp\<close>, which hold the time of the call, are left out.
\<close>

theorem outcomes_depend_on_month_only:
  assumes "getMonth now1 = getMonth now2"
  shows "map (map_option untimedOrder) (fst (snd (OrderProcessor_processOrders os options now1 st1))) =
         map (map_option untimedOrder) (fst (snd (OrderProcessor_processOrders os options now2 st2))) \<and>
         map untimedFailure (newFailures st1 (fst (OrderProcessor_processOrders os options now1 st1))) =
         map untimedFailure (newFailures st2 (fst (OrderProcessor_processOrders os options now2 st2)))"
proof -
  from assms have m: "(getMonth now1 = 11) = (getMonth now2 = 11)"
    by simp
  from processOrders_untimed(1) [OF m, of os options st1 st2]
       processOrders_untimed(2) [OF m, of st1 os options st2]
  show ?thesis by simp
qed

theorem outcomes_depend_on_month_only_witness:
  "getMonth january = getMonth januaryLater \<and>
   map (map_option untimedOrder)
     (fst (snd (OrderProcessor_processOrders mixedBatch exampleOptions january constructor))) =
   map (map_option untimedOrder)
     (fst (snd (OrderProcessor_processOrders mixedBatch exampleOptions januaryLater usedState))) \<and>
   map untimedFailure
     (newFailures constructor
        (fst (OrderProcessor_processOrders mixedBatch exampleOptions january constructor))) =
   map untimedFailure
     (newFailures usedState
        (fst (OrderProcessor_processOrders mixedBatch exampleOptions januaryLater usedState))) \<and>
   map (map_option processedAt)
     (fst (snd (OrderProcessor_processOrders mixedBatch exampleOptions january constructor))) \<noteq>
   map (map_option processedAt)
     (fst (snd (OrderProcessor_processOrders mixedBatch exampleOptions januaryLater usedState)))"
proof -
  have m: "getMonth january = getMonth januaryLater"
    by (simp add: january_def januaryLater_def)
  have d: "map (map_option processedAt)
      (fst (snd (OrderProcessor_processOrders mixedBatch exampleOptions january constructor))) \<noteq>
    map (map_option processedAt)
      (fst (snd (OrderProcessor_processOrders mixedBatch exampleOptions januaryLater usedState)))"
    by code_simp
  from m d outcomes_depend_on_month_only
    [OF m, of mixedBatch exampleOptions constructor usedState]
  show ?thesis by blast
qed

text \<open>
  C10. Pricing is claimed to keep no state between runs: an order's outcome in a batch is
  its outcome when priced alone, and an earlier call on the same processor does not change
  the counts and statistics a later call reports. The first part holds for the class (see
  \<open>entryOutcome_alone\<close>). The second does not: \<open>processOrders\<close> of the class resets
  \<^verbatim>\<open>orders\<close> but neither \<^verbatim>\<open>processedOrders\<close>, \<^verbatim>\<open>failedOrders\<close> nor the statistics, so
  a second call with the example order alone on the same processor reports 2 processed
  orders of a total of 1, a success count of 2 and a total value of 44.1, where the first
  call, and a call on a new processor, report 1 processed, success count 1, total value
  22.05. The refactored \<open>processOrders\<close> has no state and reports 1 of 1.
\<close>

theorem class_counts_accumulate_between_calls:
  "(case OrderProcessor_processOrders [Some exampleOrder] statisticsOptions january constructor of
      (st1, rs1, resp1) \<Rightarrow>
        (case OrderProcessor_processOrders [Some exampleOrder] statisticsOptions january st1 of
           (st2, rs2, resp2) \<Rightarrow>
             (processed resp1, failed resp1, total resp1, resp_statistics resp1) =
               (1, 0, 1, Some \<lparr>successCount = 1, failureCount = 0, totalValue = ratio 2205 100,
                               averageOrderValue = ratio 2205 100\<rparr>) \<and>
             (processed resp2, failed resp2, total resp2, resp_statistics resp2) =
               (2, 0, 1, Some \<lparr>successCount = 2, failureCount = 0, totalValue = ratio 441 10,
                               averageOrderValue = ratio 2205 100\<rparr>) \<and>
             map (map_option breakdownOf) rs1 = map (map_option breakdownOf) rs2)) \<and>
   map_sum id (\<lambda>s. (s_total s, successful s, s_failed s))
     (processOrders [Some exampleOrder] None january) = Inr (1, 1, 0)"
  by code_simp

end
